theory Spec2Isabelle
  imports Complex_Main
begin

section \<open>SQL values and three-valued logic\<close>

text \<open>
  Identifiers are uuids, written as text on the wire; timestamps are seconds since the
  epoch.  A nullable column is an \<open>option\<close>, with \<open>None\<close> for SQL NULL, and a
  SQL truth value is a \<open>bool option\<close>: a row passes a row-level rule only when the
  rule evaluates to TRUE, so NULL behaves like FALSE at the top but not below an OR.
\<close>

type_synonym uuid = string
type_synonym timestamptz = rat

definition sql_eq :: "'a option \<Rightarrow> 'a option \<Rightarrow> bool option" where
  "sql_eq a b = (case a of None \<Rightarrow> None
                  | Some x \<Rightarrow> (case b of None \<Rightarrow> None | Some y \<Rightarrow> Some (x = y)))"

fun sql_or :: "bool option \<Rightarrow> bool option \<Rightarrow> bool option" where
  "sql_or (Some True) b = Some True"
| "sql_or a (Some True) = Some True"
| "sql_or (Some False) (Some False) = Some False"
| "sql_or a b = None"

section \<open>Tables\<close>

text \<open>The three tables of the schema, one record per row, one field per column.\<close>

record profile =
  p_id :: uuid
  p_email :: string
  p_name :: string
  p_phone :: "string option"
  p_role :: string
  p_admin_color :: "string option"
  p_created_at :: "timestamptz option"
  p_updated_at :: "timestamptz option"

record booking =
  booking_id :: uuid
  client_id :: "uuid option"
  client_name :: string
  email :: string
  phone_number :: string
  event_date :: string
  time_slot :: string
  facility :: string
  package :: string
  special_requests :: "string option"
  status :: string
  assigned_admin_id :: "uuid option"
  total_spend :: "rat option"
  receipts_uploaded :: "bool option"
  receipts_approved :: "bool option"
  created_at :: "timestamptz option"
  updated_at :: "timestamptz option"

record notification =
  n_id :: uuid
  user_id :: uuid
  n_type :: string
  n_title :: string
  n_message :: string
  n_read :: "bool option"
  n_booking_id :: "uuid option"
  n_created_at :: "timestamptz option"

text \<open>The CHECK constraints on \<open>profiles.role\<close> and \<open>bookings.status\<close>.\<close>

definition role_check :: "string \<Rightarrow> bool" where
  "role_check r = (r \<in> set [''client'', ''admin'', ''super_admin''])"

definition status_check :: "string \<Rightarrow> bool" where
  "status_check s = (s \<in> set [''inquiry'', ''confirmed'', ''cleared''])"

section \<open>Row-level security policies\<close>

text \<open>
  The USING and WITH CHECK predicates of the schema are built from four forms: a
  comparison between \<open>auth.uid()\<close> and a uuid column of the row, OR, the constant
  \<open>true\<close>, and the sub-select
  \<open>EXISTS (SELECT 1 FROM profiles WHERE id = auth.uid() AND role IN (...))\<close>.
\<close>

datatype operand = AuthUid | Col string

datatype expr =
    Eq operand operand
  | Or expr expr
  | ExistsOwnProfile "string list"
  | Const bool

datatype cmd = SELECT | INSERT | UPDATE

record policy =
  pol_name :: string
  pol_table :: string
  pol_cmd :: cmd
  pol_to :: string
  pol_using :: "expr option"
  pol_check :: "expr option"

datatype row = PRow profile | BRow booking | NRow notification

fun col_uuid :: "row \<Rightarrow> string \<Rightarrow> uuid option" where
  "col_uuid (PRow p) c = (if c = ''id'' then Some (p_id p) else None)"
| "col_uuid (BRow b) c =
     (if c = ''id'' then Some (booking_id b)
      else if c = ''client_id'' then client_id b
      else if c = ''assigned_admin_id'' then assigned_admin_id b
      else None)"
| "col_uuid (NRow n) c =
     (if c = ''id'' then Some (n_id n)
      else if c = ''user_id'' then Some (user_id n)
      else if c = ''booking_id'' then n_booking_id n
      else None)"

section \<open>The catalog and the DDL statements of the two SQL files\<close>

record catalog =
  cat_tables :: "string list"
  cat_rls :: "string list"
  cat_policies :: "policy list"
  cat_functions :: "string list"
  cat_triggers :: "(string \<times> string) list"
  cat_indexes :: "string list"

datatype stmt =
    CreateTableIfNotExists string
  | EnableRowLevelSecurity string
  | CreatePolicy policy
  | DropPolicyIfExists string string
  | CreateOrReplaceFunction string
  | DropTriggerIfExists string string
  | CreateTrigger string string string
  | CreateIndexIfNotExists string string

datatype sql_error =
    DuplicateObject string string
  | UndefinedTable string
  | UndefinedFunction string
  | InfiniteRecursion string
  | CheckViolation string
  | NotNullViolation string
  | UniqueViolation string
  | RlsViolation string
  | ForeignKeyViolation string

definition has_policy :: "catalog \<Rightarrow> string \<Rightarrow> string \<Rightarrow> bool" where
  "has_policy cat tbl name =
     list_ex (\<lambda>p. pol_table p = tbl \<and> pol_name p = name) (cat_policies cat)"

text \<open>
  What each statement does to the catalog.  The guarded forms (IF NOT EXISTS,
  IF EXISTS, OR REPLACE) succeed on an object that is already there; CREATE POLICY and
  CREATE TRIGGER have no such guard and raise on a name already taken on the table.
\<close>

fun exec :: "stmt \<Rightarrow> catalog \<Rightarrow> sql_error + catalog" where
  "exec (CreateTableIfNotExists t) cat =
     (if t \<in> set (cat_tables cat) then Inr cat
      else Inr (cat\<lparr>cat_tables := cat_tables cat @ [t]\<rparr>))"
| "exec (EnableRowLevelSecurity t) cat =
     (if t \<notin> set (cat_tables cat) then Inl (UndefinedTable t)
      else if t \<in> set (cat_rls cat) then Inr cat
      else Inr (cat\<lparr>cat_rls := cat_rls cat @ [t]\<rparr>))"
| "exec (CreatePolicy p) cat =
     (if pol_table p \<notin> set (cat_tables cat) then Inl (UndefinedTable (pol_table p))
      else if has_policy cat (pol_table p) (pol_name p)
        then Inl (DuplicateObject (pol_name p) (pol_table p))
      else Inr (cat\<lparr>cat_policies := cat_policies cat @ [p]\<rparr>))"
| "exec (DropPolicyIfExists name t) cat =
     (if t \<notin> set (cat_tables cat) then Inl (UndefinedTable t)
      else Inr (cat\<lparr>cat_policies :=
                  filter (\<lambda>p. \<not> (pol_table p = t \<and> pol_name p = name)) (cat_policies cat)\<rparr>))"
| "exec (CreateOrReplaceFunction f) cat =
     (if f \<in> set (cat_functions cat) then Inr cat
      else Inr (cat\<lparr>cat_functions := cat_functions cat @ [f]\<rparr>))"
| "exec (DropTriggerIfExists name t) cat =
     (if t \<notin> set (cat_tables cat) then Inl (UndefinedTable t)
      else Inr (cat\<lparr>cat_triggers := filter (\<lambda>g. g \<noteq> (name, t)) (cat_triggers cat)\<rparr>))"
| "exec (CreateTrigger name t f) cat =
     (if t \<notin> set (cat_tables cat) then Inl (UndefinedTable t)
      else if f \<notin> set (cat_functions cat) then Inl (UndefinedFunction f)
      else if (name, t) \<in> set (cat_triggers cat) then Inl (DuplicateObject name t)
      else Inr (cat\<lparr>cat_triggers := cat_triggers cat @ [(name, t)]\<rparr>))"
| "exec (CreateIndexIfNotExists name t) cat =
     (if t \<notin> set (cat_tables cat) then Inl (UndefinedTable t)
      else if name \<in> set (cat_indexes cat) then Inr cat
      else Inr (cat\<lparr>cat_indexes := cat_indexes cat @ [name]\<rparr>))"

text \<open>A script runs its statements in order and stops at the first error.\<close>

fun run :: "stmt list \<Rightarrow> catalog \<Rightarrow> sql_error + catalog" where
  "run [] cat = Inr cat"
| "run (s # ss) cat = (case exec s cat of Inl e \<Rightarrow> Inl e | Inr cat' \<Rightarrow> run ss cat')"

fun is_create_policy :: "stmt \<Rightarrow> bool" where
  "is_create_policy (CreatePolicy p) = True"
| "is_create_policy s = False"

subsection \<open>The policies, as the schema file writes them\<close>

definition users_read_own_profile :: policy where
  "users_read_own_profile =
     \<lparr>pol_name = ''Users can read their own profile'', pol_table = ''profiles'',
      pol_cmd = SELECT, pol_to = ''authenticated'',
      pol_using = Some (Eq AuthUid (Col ''id'')), pol_check = None\<rparr>"

definition users_update_own_profile :: policy where
  "users_update_own_profile =
     \<lparr>pol_name = ''Users can update their own profile'', pol_table = ''profiles'',
      pol_cmd = UPDATE, pol_to = ''authenticated'',
      pol_using = Some (Eq AuthUid (Col ''id'')), pol_check = None\<rparr>"

definition super_admins_read_all_profiles :: policy where
  "super_admins_read_all_profiles =
     \<lparr>pol_name = ''Super admins can read all profiles'', pol_table = ''profiles'',
      pol_cmd = SELECT, pol_to = ''authenticated'',
      pol_using = Some (ExistsOwnProfile [''super_admin'']), pol_check = None\<rparr>"

definition clients_read_own_bookings :: policy where
  "clients_read_own_bookings =
     \<lparr>pol_name = ''Clients can read their own bookings'', pol_table = ''bookings'',
      pol_cmd = SELECT, pol_to = ''authenticated'',
      pol_using = Some (Or (Eq (Col ''client_id'') AuthUid)
                           (ExistsOwnProfile [''admin'', ''super_admin''])),
      pol_check = None\<rparr>"

definition anyone_can_create_bookings :: policy where
  "anyone_can_create_bookings =
     \<lparr>pol_name = ''Anyone can create bookings'', pol_table = ''bookings'',
      pol_cmd = INSERT, pol_to = ''authenticated'',
      pol_using = None, pol_check = Some (Const True)\<rparr>"

definition admins_update_assigned_bookings :: policy where
  "admins_update_assigned_bookings =
     \<lparr>pol_name = ''Admins can update assigned bookings'', pol_table = ''bookings'',
      pol_cmd = UPDATE, pol_to = ''authenticated'',
      pol_using = Some (Or (Eq (Col ''assigned_admin_id'') AuthUid)
                           (ExistsOwnProfile [''super_admin''])),
      pol_check = None\<rparr>"

definition users_read_own_notifications :: policy where
  "users_read_own_notifications =
     \<lparr>pol_name = ''Users can read their own notifications'', pol_table = ''notifications'',
      pol_cmd = SELECT, pol_to = ''authenticated'',
      pol_using = Some (Eq (Col ''user_id'') AuthUid), pol_check = None\<rparr>"

definition system_can_create_notifications :: policy where
  "system_can_create_notifications =
     \<lparr>pol_name = ''System can create notifications'', pol_table = ''notifications'',
      pol_cmd = INSERT, pol_to = ''authenticated'',
      pol_using = None, pol_check = Some (Const True)\<rparr>"

definition users_update_own_notifications :: policy where
  "users_update_own_notifications =
     \<lparr>pol_name = ''Users can update their own notifications'', pol_table = ''notifications'',
      pol_cmd = UPDATE, pol_to = ''authenticated'',
      pol_using = Some (Eq (Col ''user_id'') AuthUid), pol_check = None\<rparr>"

subsection \<open>The two scripts\<close>

definition schema_sql :: "stmt list" where
  "schema_sql =
     [CreateTableIfNotExists ''profiles'',
      CreateTableIfNotExists ''bookings'',
      CreateTableIfNotExists ''notifications'',
      EnableRowLevelSecurity ''profiles'',
      EnableRowLevelSecurity ''bookings'',
      EnableRowLevelSecurity ''notifications'',
      CreatePolicy users_read_own_profile,
      CreatePolicy users_update_own_profile,
      CreatePolicy super_admins_read_all_profiles,
      CreatePolicy clients_read_own_bookings,
      CreatePolicy anyone_can_create_bookings,
      CreatePolicy admins_update_assigned_bookings,
      CreatePolicy users_read_own_notifications,
      CreatePolicy system_can_create_notifications,
      CreatePolicy users_update_own_notifications,
      CreateOrReplaceFunction ''get_admin_conversion_stats'',
      CreateOrReplaceFunction ''handle_new_user'',
      DropTriggerIfExists ''on_auth_user_created'' ''auth.users'',
      CreateTrigger ''on_auth_user_created'' ''auth.users'' ''handle_new_user'',
      CreateIndexIfNotExists ''idx_bookings_status'' ''bookings'',
      CreateIndexIfNotExists ''idx_bookings_assigned_admin'' ''bookings'',
      CreateIndexIfNotExists ''idx_bookings_event_date'' ''bookings'',
      CreateIndexIfNotExists ''idx_notifications_user_id'' ''notifications'',
      CreateIndexIfNotExists ''idx_notifications_read'' ''notifications'']"

definition quiet_union_sql :: "stmt list" where
  "quiet_union_sql = [DropPolicyIfExists ''Super admins can read all profiles'' ''profiles'']"

text \<open>The database the scripts start from: only the authentication table exists.\<close>

definition fresh_catalog :: catalog where
  "fresh_catalog =
     \<lparr>cat_tables = [''auth.users''], cat_rls = [], cat_policies = [], cat_functions = [],
      cat_triggers = [], cat_indexes = []\<rparr>"

text \<open>The catalog after the schema file alone, and after the schema and the migration.\<close>

definition schema_catalog :: catalog where
  "schema_catalog =
     \<lparr>cat_tables = [''auth.users'', ''profiles'', ''bookings'', ''notifications''],
      cat_rls = [''profiles'', ''bookings'', ''notifications''],
      cat_policies = [users_read_own_profile, users_update_own_profile,
                  super_admins_read_all_profiles, clients_read_own_bookings,
                  anyone_can_create_bookings, admins_update_assigned_bookings,
                  users_read_own_notifications, system_can_create_notifications,
                  users_update_own_notifications],
      cat_functions = [''get_admin_conversion_stats'', ''handle_new_user''],
      cat_triggers = [(''on_auth_user_created'', ''auth.users'')],
      cat_indexes = [''idx_bookings_status'', ''idx_bookings_assigned_admin'',
                 ''idx_bookings_event_date'', ''idx_notifications_user_id'',
                 ''idx_notifications_read'']\<rparr>"

definition migrated_catalog :: catalog where
  "migrated_catalog =
     schema_catalog\<lparr>cat_policies :=
       [users_read_own_profile, users_update_own_profile, clients_read_own_bookings,
        anyone_can_create_bookings, admins_update_assigned_bookings,
        users_read_own_notifications, system_can_create_notifications,
        users_update_own_notifications]\<rparr>"

section \<open>Evaluating the policies\<close>

fun has_subquery :: "expr \<Rightarrow> bool" where
  "has_subquery (Eq a b) = False"
| "has_subquery (Or a b) = (has_subquery a \<or> has_subquery b)"
| "has_subquery (ExistsOwnProfile roles) = True"
| "has_subquery (Const c) = False"

fun eval_operand :: "uuid \<Rightarrow> row \<Rightarrow> operand \<Rightarrow> uuid option" where
  "eval_operand uid r AuthUid = Some uid"
| "eval_operand uid r (Col c) = col_uuid r c"

text \<open>
  The sub-select is a parameter: it reads \<open>profiles\<close>, so what it sees is itself
  filtered by the policies of \<open>profiles\<close>.
\<close>

fun eval_expr :: "(string list \<Rightarrow> sql_error + bool) \<Rightarrow> uuid \<Rightarrow> row \<Rightarrow> expr
    \<Rightarrow> sql_error + bool option" where
  "eval_expr sub uid r (Eq a b) = Inr (sql_eq (eval_operand uid r a) (eval_operand uid r b))"
| "eval_expr sub uid r (Or a b) =
     (case eval_expr sub uid r a of
        Inl e \<Rightarrow> Inl e
      | Inr x \<Rightarrow> (case eval_expr sub uid r b of
                    Inl e \<Rightarrow> Inl e
                  | Inr y \<Rightarrow> Inr (sql_or x y)))"
| "eval_expr sub uid r (ExistsOwnProfile roles) =
     (case sub roles of Inl e \<Rightarrow> Inl e | Inr v \<Rightarrow> Inr (Some v))"
| "eval_expr sub uid r (Const c) = Inr (Some c)"

definition policies_for :: "catalog \<Rightarrow> string \<Rightarrow> cmd \<Rightarrow> policy list" where
  "policies_for cat tbl c =
     filter (\<lambda>p. pol_table p = tbl \<and> pol_cmd p = c \<and> pol_to p = ''authenticated'')
       (cat_policies cat)"

text \<open>
  Every policy of the schema is granted TO authenticated, and the caller \<open>uid\<close> of
  everything below is an authenticated identity.  The predicate a policy applies to an
  existing row is its USING clause; to a new row, its WITH CHECK clause, or the USING
  clause when there is none.
\<close>

definition using_expr :: "policy \<Rightarrow> expr" where
  "using_expr p = (case pol_using p of Some e \<Rightarrow> e | None \<Rightarrow> Const True)"

definition check_expr :: "policy \<Rightarrow> expr" where
  "check_expr p = (case pol_check p of Some e \<Rightarrow> e | None \<Rightarrow> using_expr p)"

text \<open>
  Permissive policies are combined with OR: a row passes when one of them is TRUE.
  An error in any of them is the error of the statement.
\<close>

fun any_true :: "(sql_error + bool option) list \<Rightarrow> sql_error + bool" where
  "any_true [] = Inr False"
| "any_true (Inl e # vs) = Inl e"
| "any_true (Inr v # vs) =
     (case any_true vs of Inl e \<Rightarrow> Inl e | Inr t \<Rightarrow> Inr (v = Some True \<or> t))"

text \<open>
  The rows of \<open>profiles\<close> a sub-select inside a policy can see.  A SELECT policy of
  \<open>profiles\<close> that itself reads \<open>profiles\<close> makes the expansion re-enter the same
  relation, which the engine reports as infinite recursion.
\<close>

definition profiles_visible :: "catalog \<Rightarrow> profile list \<Rightarrow> uuid \<Rightarrow> sql_error + profile list" where
  "profiles_visible cat ps uid =
     (if ''profiles'' \<notin> set (cat_rls cat) then Inr ps
      else if list_ex (\<lambda>p. has_subquery (using_expr p)) (policies_for cat ''profiles'' SELECT)
        then Inl (InfiniteRecursion ''profiles'')
      else Inr (filter
        (\<lambda>r. any_true (map (\<lambda>p. eval_expr (\<lambda>roles. Inl (InfiniteRecursion ''profiles''))
                                   uid (PRow r) (using_expr p))
                            (policies_for cat ''profiles'' SELECT)) = Inr True) ps))"

definition exists_own_profile :: "catalog \<Rightarrow> profile list \<Rightarrow> uuid \<Rightarrow> string list
    \<Rightarrow> sql_error + bool" where
  "exists_own_profile cat ps uid roles =
     (case profiles_visible cat ps uid of
        Inl e \<Rightarrow> Inl e
      | Inr vis \<Rightarrow> Inr (list_ex (\<lambda>p. p_id p = uid \<and> p_role p \<in> set roles) vis))"

text \<open>
  Whether the caller \<open>uid\<close> may apply command \<open>c\<close> to an existing row of \<open>tbl\<close>
  (the USING side), and whether a new row is accepted (the WITH CHECK side).
\<close>

definition rls_using :: "catalog \<Rightarrow> profile list \<Rightarrow> uuid \<Rightarrow> cmd \<Rightarrow> string \<Rightarrow> row
    \<Rightarrow> sql_error + bool" where
  "rls_using cat ps uid c tbl r =
     (if tbl \<notin> set (cat_rls cat) then Inr True
      else any_true (map (\<lambda>p. eval_expr (exists_own_profile cat ps uid) uid r (using_expr p))
                         (policies_for cat tbl c)))"

definition rls_check :: "catalog \<Rightarrow> profile list \<Rightarrow> uuid \<Rightarrow> cmd \<Rightarrow> string \<Rightarrow> row
    \<Rightarrow> sql_error + bool" where
  "rls_check cat ps uid c tbl r =
     (if tbl \<notin> set (cat_rls cat) then Inr True
      else any_true (map (\<lambda>p. eval_expr (exists_own_profile cat ps uid) uid r (check_expr p))
                         (policies_for cat tbl c)))"

text \<open>The role in the caller's own \<open>profiles\<close> row; the primary key makes it unique.\<close>

definition caller_role :: "profile list \<Rightarrow> uuid \<Rightarrow> string option" where
  "caller_role ps uid = map_option p_role (find (\<lambda>p. p_id p = uid) ps)"

section \<open>The conversion-statistics function\<close>


















section \<open>Account provisioning\<close>

text \<open>
  The row of \<open>auth.users\<close> the trigger receives as \<open>NEW\<close>.  The metadata is a JSON
  object or NULL; a field is given by the text \<open>->>\<close> extracts from it, \<open>None\<close>
  for a JSON null.
\<close>

record auth_user =
  au_id :: uuid
  au_email :: "string option"
  raw_user_meta_data :: "(string \<rightharpoonup> string option) option"

definition json_field_text :: "(string \<rightharpoonup> string option) option \<Rightarrow> string \<Rightarrow> string option" where
  "json_field_text j k =
     (case j of None \<Rightarrow> None
      | Some obj \<Rightarrow> (case obj k of None \<Rightarrow> None | Some v \<Rightarrow> v))"

text \<open>\<open>split_part(s, '@', 1)\<close>: the text before the first delimiter, all of \<open>s\<close>
  when there is none.\<close>

definition split_part_1 :: "string option \<Rightarrow> char \<Rightarrow> string option" where
  "split_part_1 s d = map_option (takeWhile (\<lambda>c. c \<noteq> d)) s"

definition coalesce_opt :: "'a option \<Rightarrow> 'a option \<Rightarrow> 'a option" where
  "coalesce_opt a b = (case a of None \<Rightarrow> b | Some x \<Rightarrow> Some x)"

text \<open>
  \<open>INSERT INTO public.profiles (id, email, name, role)\<close>: the other columns take their
  defaults, and the constraints of the table are checked (primary key, NOT NULL,
  UNIQUE on email, CHECK on role).
\<close>

definition insert_profile :: "timestamptz \<Rightarrow> uuid \<Rightarrow> string option \<Rightarrow> string option
    \<Rightarrow> string option \<Rightarrow> profile list \<Rightarrow> sql_error + profile list" where
  "insert_profile now i e n r ps =
     (case e of
        None \<Rightarrow> Inl (NotNullViolation ''email'')
      | Some e' \<Rightarrow>
         (case n of
            None \<Rightarrow> Inl (NotNullViolation ''name'')
          | Some n' \<Rightarrow>
             (case r of
                None \<Rightarrow> Inl (NotNullViolation ''role'')
              | Some r' \<Rightarrow>
                 (if \<not> role_check r' then Inl (CheckViolation ''profiles_role_check'')
                  else if i \<in> set (map p_id ps) then Inl (UniqueViolation ''profiles_pkey'')
                  else if e' \<in> set (map p_email ps)
                    then Inl (UniqueViolation ''profiles_email_key'')
                  else Inr (ps @ [\<lparr>p_id = i, p_email = e', p_name = n', p_phone = None,
                                    p_role = r', p_admin_color = None,
                                    p_created_at = Some now, p_updated_at = Some now\<rparr>])))))"

definition handle_new_user :: "timestamptz \<Rightarrow> auth_user \<Rightarrow> profile list \<Rightarrow> sql_error + profile list" where
  "handle_new_user now new ps =
     insert_profile now (au_id new) (au_email new)
       (coalesce_opt (json_field_text (raw_user_meta_data new) ''name'')
                     (split_part_1 (au_email new) CHR ''@''))
       (coalesce_opt (json_field_text (raw_user_meta_data new) ''role'') (Some ''client''))
       ps"

text \<open>
  The trigger \<open>on_auth_user_created\<close> runs the function AFTER INSERT ON
  \<open>auth.users\<close> FOR EACH ROW, inside the inserting statement: an error raised by the
  function undoes the insert, so an identity exists only if its profile row was written.
\<close>

definition insert_auth_user :: "timestamptz \<Rightarrow> auth_user \<Rightarrow> auth_user list \<times> profile list
    \<Rightarrow> sql_error + auth_user list \<times> profile list" where
  "insert_auth_user now new db =
     (if au_id new \<in> set (map au_id (fst db)) then Inl (UniqueViolation ''users_pkey'')
      else case handle_new_user now new (snd db) of
             Inl e \<Rightarrow> Inl e
           | Inr ps' \<Rightarrow> Inr (fst db @ [new], ps'))"

section \<open>The sign-in form\<close>

text \<open>\<open>s.split(d)\<close> for a one-character separator.\<close>

fun split_on :: "char \<Rightarrow> string \<Rightarrow> string list" where
  "split_on d [] = [[]]"
| "split_on d (c # cs) =
     (if c = d then [] # split_on d cs
      else (case split_on d cs of [] \<Rightarrow> [[c]] | w # ws \<Rightarrow> (c # w) # ws))"

text \<open>\<open>xs[i]\<close>: \<open>undefined\<close> out of range.\<close>

definition js_index :: "'a list \<Rightarrow> nat \<Rightarrow> 'a option" where
  "js_index xs i = (if i < length xs then Some (xs ! i) else None)"

text \<open>\<open>toLowerCase\<close>, on the ASCII letters.\<close>

definition lower_char :: "char \<Rightarrow> char" where
  "lower_char c =
     (case map_of (zip ''ABCDEFGHIJKLMNOPQRSTUVWXYZ'' ''abcdefghijklmnopqrstuvwxyz'') c of
        None \<Rightarrow> c
      | Some l \<Rightarrow> l)"

definition toLowerCase :: "string \<Rightarrow> string" where
  "toLowerCase s = map lower_char s"

definition ALLOWED_DOMAINS :: "string list" where
  "ALLOWED_DOMAINS = [''yourcompany.com'', ''yourdomain.org'']"

text \<open>\<open>email.split('@')[1]?.toLowerCase()\<close>\<close>

definition email_domain :: "string \<Rightarrow> string option" where
  "email_domain e = map_option toLowerCase (js_index (split_on CHR ''@'' e) 1)"

definition isOrganizationEmail :: "string \<Rightarrow> bool" where
  "isOrganizationEmail e =
     (case email_domain e of None \<Rightarrow> False | Some d \<Rightarrow> d \<in> set ALLOWED_DOMAINS)"

record form_data =
  fd_email :: string
  fd_password :: string
  fd_name :: string
  fd_role :: string

text \<open>
  What \<open>handleSubmit\<close> does, as the list of its effects in order.  \<open>signIn\<close> and
  \<open>signUp\<close> come from the authentication context and may reject; \<open>rejects\<close>
  says whether the call made does.  The module does not import \<open>toast\<close>, so the
  statement of the guard that names it raises a ReferenceError before the
  \<open>return\<close> is reached.
\<close>

datatype effect =
    PreventDefault
  | ReferenceError string
  | SetLoading bool
  | SignIn string string
  | SignUp string string string string
  | ConsoleError string

definition handleSubmit :: "bool \<Rightarrow> form_data \<Rightarrow> bool \<Rightarrow> effect list" where
  "handleSubmit isLogin formData rejects =
     (if \<not> isOrganizationEmail (fd_email formData)
      then [PreventDefault, ReferenceError ''toast'']
      else [PreventDefault, SetLoading True]
           @ [if isLogin then SignIn (fd_email formData) (fd_password formData)
              else SignUp (fd_email formData) (fd_password formData) (fd_name formData)
                     (fd_role formData)]
           @ (if rejects then [ConsoleError ''Auth error:''] else [])
           @ [SetLoading False])"

fun is_auth_request :: "effect \<Rightarrow> bool" where
  "is_auth_request (SignIn e p) = True"
| "is_auth_request (SignUp e p n r) = True"
| "is_auth_request x = False"

section \<open>Writing to \<open>bookings\<close>\<close>

text \<open>
  A value sent for a column of an inserted row: the key is absent from the object (the
  column takes its default), it is \<open>null\<close>, or it carries a value.
\<close>

datatype 'a col = Absent | Null | Val 'a

definition with_default :: "'a col \<Rightarrow> 'a option \<Rightarrow> 'a option" where
  "with_default c d = (case c of Absent \<Rightarrow> d | Null \<Rightarrow> None | Val v \<Rightarrow> Some v)"

record booking_insert =
  i_id :: "uuid col"
  i_client_id :: "uuid col"
  i_client_name :: "string col"
  i_email :: "string col"
  i_phone_number :: "string col"
  i_event_date :: "string col"
  i_time_slot :: "string col"
  i_facility :: "string col"
  i_package :: "string col"
  i_special_requests :: "string col"
  i_status :: "string col"
  i_assigned_admin_id :: "uuid col"
  i_total_spend :: "rat col"
  i_receipts_uploaded :: "bool col"
  i_receipts_approved :: "bool col"
  i_created_at :: "timestamptz col"
  i_updated_at :: "timestamptz col"

text \<open>The two references from \<open>bookings\<close> to \<open>profiles(id)\<close>.\<close>

definition references_ok :: "profile list \<Rightarrow> booking \<Rightarrow> bool" where
  "references_ok ps b =
     ((case client_id b of None \<Rightarrow> True | Some c \<Rightarrow> c \<in> set (map p_id ps))
      \<and> (case assigned_admin_id b of None \<Rightarrow> True | Some a \<Rightarrow> a \<in> set (map p_id ps)))"

text \<open>
  INSERT of one row by the caller \<open>uid\<close>: defaults (\<open>fresh\<close> is what
  \<open>gen_random_uuid()\<close> returns, \<open>now\<close> what \<open>now()\<close> returns), NOT NULL, the CHECK
  on status, the primary key, the references, then the WITH CHECK of the INSERT policies.
\<close>

definition insert_booking :: "catalog \<Rightarrow> profile list \<Rightarrow> uuid \<Rightarrow> uuid \<Rightarrow> timestamptz
    \<Rightarrow> booking_insert \<Rightarrow> booking list \<Rightarrow> sql_error + booking list" where
  "insert_booking cat ps uid fresh now v bs =
     (case (with_default (i_id v) (Some fresh),
            with_default (i_client_name v) None,
            with_default (i_email v) None,
            with_default (i_phone_number v) None,
            with_default (i_event_date v) None,
            with_default (i_time_slot v) None,
            with_default (i_facility v) None,
            with_default (i_package v) None,
            with_default (i_status v) (Some ''inquiry'')) of
        (Some i, Some cn, Some em, Some ph, Some ed, Some ts, Some fa, Some pk, Some st) \<Rightarrow>
          (let b = \<lparr>booking_id = i,
                     client_id = with_default (i_client_id v) None,
                     client_name = cn, email = em, phone_number = ph, event_date = ed,
                     time_slot = ts, facility = fa, package = pk,
                     special_requests = with_default (i_special_requests v) None,
                     status = st,
                     assigned_admin_id = with_default (i_assigned_admin_id v) None,
                     total_spend = with_default (i_total_spend v) None,
                     receipts_uploaded = with_default (i_receipts_uploaded v) (Some False),
                     receipts_approved = with_default (i_receipts_approved v) (Some False),
                     created_at = with_default (i_created_at v) (Some now),
                     updated_at = with_default (i_updated_at v) (Some now)\<rparr>
           in if \<not> status_check st then Inl (CheckViolation ''bookings_status_check'')
              else if i \<in> set (map booking_id bs) then Inl (UniqueViolation ''bookings_pkey'')
              else if \<not> references_ok ps b then Inl (ForeignKeyViolation ''bookings'')
              else (case rls_check cat ps uid INSERT ''bookings'' (BRow b) of
                      Inl e \<Rightarrow> Inl e
                    | Inr ok \<Rightarrow> if ok then Inr (bs @ [b]) else Inl (RlsViolation ''bookings'')))
      | _ \<Rightarrow> Inl (NotNullViolation ''bookings''))"








section \<open>The booking form\<close>

text \<open>What the resolver hands to \<open>onSubmit\<close>: the eight fields of \<open>bookingSchema\<close>
  and nothing else, \<open>special_requests\<close> optional.\<close>

record booking_form_data =
  bf_client_name :: string
  bf_email :: string
  bf_phone_number :: string
  bf_event_date :: string
  bf_time_slot :: string
  bf_facility :: string
  bf_package :: string
  bf_special_requests :: "string option"

text \<open>The object \<open>onSubmit\<close> inserts: the spread of the form data and three more keys.\<close>

definition onSubmit_row :: "booking_form_data \<Rightarrow> booking_insert" where
  "onSubmit_row data =
     \<lparr>i_id = Absent, i_client_id = Absent,
      i_client_name = Val (bf_client_name data),
      i_email = Val (bf_email data),
      i_phone_number = Val (bf_phone_number data),
      i_event_date = Val (bf_event_date data),
      i_time_slot = Val (bf_time_slot data),
      i_facility = Val (bf_facility data),
      i_package = Val (bf_package data),
      i_special_requests =
        (case bf_special_requests data of None \<Rightarrow> Absent | Some s \<Rightarrow> Val s),
      i_status = Val ''inquiry'',
      i_assigned_admin_id = Absent, i_total_spend = Absent,
      i_receipts_uploaded = Val False,
      i_receipts_approved = Val False,
      i_created_at = Absent, i_updated_at = Absent\<rparr>"

definition onSubmit :: "catalog \<Rightarrow> profile list \<Rightarrow> uuid \<Rightarrow> uuid \<Rightarrow> timestamptz
    \<Rightarrow> booking_form_data \<Rightarrow> booking list \<Rightarrow> sql_error + booking list" where
  "onSubmit cat ps uid fresh now data bs =
     insert_booking cat ps uid fresh now (onSubmit_row data) bs"

section \<open>The admin dashboards\<close>

text \<open>
  A JavaScript number, and what \<open>JSON.stringify\<close> sends for it: \<open>null\<close> unless it
  is finite.  A finite amount is taken at the scale of the column.
\<close>

datatype js_number = Finite rat | NaN | PosInfinity | NegInfinity




























section \<open>Example rows\<close>

text \<open>One client, two admins and a super-admin, and a way to write a booking row.\<close>

definition example_profile :: "uuid \<Rightarrow> string \<Rightarrow> profile" where
  "example_profile i r =
     \<lparr>p_id = i, p_email = i @ ''@yourcompany.com'', p_name = i, p_phone = None, p_role = r,
      p_admin_color = None, p_created_at = Some 0, p_updated_at = Some 0\<rparr>"

definition example_profiles :: "profile list" where
  "example_profiles =
     [example_profile ''c1'' ''client'', example_profile ''a1'' ''admin'',
      example_profile ''a2'' ''admin'', example_profile ''s1'' ''super_admin'']"

definition example_booking :: "uuid \<Rightarrow> uuid option \<Rightarrow> string \<Rightarrow> uuid option \<Rightarrow> timestamptz
    \<Rightarrow> timestamptz \<Rightarrow> booking" where
  "example_booking i c s a t u =
     \<lparr>booking_id = i, client_id = c, client_name = ''Cleo'', email = ''cleo@example.com'',
      phone_number = ''0123456789'', event_date = ''2025-09-01'',
      time_slot = ''9:00 AM - 12:00 PM'', facility = ''Banquet Room'',
      package = ''Basic Package - $500'', special_requests = None, status = s,
      assigned_admin_id = a, total_spend = None, receipts_uploaded = Some False,
      receipts_approved = Some False, created_at = Some t, updated_at = Some u\<rparr>"



definition example_form :: form_data where
  "example_form = \<lparr>fd_email = ''bob@Gmail.com'', fd_password = ''pw'', fd_name = ''Bob'', fd_role = ''admin''\<rparr>"

definition example_form_data :: booking_form_data where
  "example_form_data =
     \<lparr>bf_client_name = ''Cleo'', bf_email = ''cleo@example.com'',
      bf_phone_number = ''0123456789'', bf_event_date = ''2025-09-01'',
      bf_time_slot = ''9:00 AM - 12:00 PM'', bf_facility = ''Banquet Room'',
      bf_package = ''Basic Package - $500'', bf_special_requests = None\<rparr>"






section \<open>Facts about the scripts\<close>

lemmas policy_defs =
  users_read_own_profile_def users_update_own_profile_def super_admins_read_all_profiles_def
  clients_read_own_bookings_def anyone_can_create_bookings_def
  admins_update_assigned_bookings_def users_read_own_notifications_def
  system_can_create_notifications_def users_update_own_notifications_def

lemma run_schema_fresh: "run schema_sql fresh_catalog = Inr schema_catalog"
  by (simp add: schema_sql_def fresh_catalog_def schema_catalog_def has_policy_def policy_defs)

lemma run_migration: "run quiet_union_sql schema_catalog = Inr migrated_catalog"
  by (simp add: quiet_union_sql_def schema_catalog_def migrated_catalog_def policy_defs)

lemma policies_for_simps:
  "policies_for migrated_catalog ''profiles'' SELECT = [users_read_own_profile]"
  "policies_for migrated_catalog ''profiles'' UPDATE = [users_update_own_profile]"
  "policies_for migrated_catalog ''bookings'' SELECT = [clients_read_own_bookings]"
  "policies_for migrated_catalog ''bookings'' UPDATE = [admins_update_assigned_bookings]"
  "policies_for migrated_catalog ''bookings'' INSERT = [anyone_can_create_bookings]"
  by (simp_all add: policies_for_def migrated_catalog_def schema_catalog_def policy_defs)

lemma rls_migrated: "cat_rls migrated_catalog = [''profiles'', ''bookings'', ''notifications'']"
  by (simp add: migrated_catalog_def schema_catalog_def)

lemma profiles_visible_migrated:
  "profiles_visible migrated_catalog ps uid = Inr (filter (\<lambda>p. p_id p = uid) ps)"
  by (simp add: profiles_visible_def policies_for_simps rls_migrated using_expr_def
      users_read_own_profile_def sql_eq_def eq_commute)

lemma exists_own_profile_migrated:
  "exists_own_profile migrated_catalog ps uid roles =
     Inr (\<exists>p \<in> set ps. p_id p = uid \<and> p_role p \<in> set roles)"
  by (auto simp add: exists_own_profile_def profiles_visible_migrated list_ex_iff)

lemma find_own_profile:
  "distinct (map p_id ps) \<Longrightarrow>
     (\<exists>p \<in> set ps. p_id p = uid \<and> P (p_role p)) \<longleftrightarrow> (\<exists>r. caller_role ps uid = Some r \<and> P r)"
proof (induction ps)
  case Nil
  then show ?case by (simp add: caller_role_def)
next
  case (Cons q ps)
  then show ?case by (auto simp add: caller_role_def image_iff)
qed

lemma sql_or_true: "sql_or a b = Some True \<longleftrightarrow> a = Some True \<or> b = Some True"
  by (cases "(a, b)" rule: sql_or.cases) auto

lemma bookings_select_eval:
  "rls_using migrated_catalog ps uid SELECT ''bookings'' (BRow b) =
     Inr (client_id b = Some uid \<or>
          (\<exists>p \<in> set ps. p_id p = uid \<and> p_role p \<in> set [''admin'', ''super_admin'']))"
  by (simp add: rls_using_def rls_migrated policies_for_simps using_expr_def
      clients_read_own_bookings_def exists_own_profile_migrated sql_or_true sql_eq_def
      split: option.splits)




lemma caller_role_example:
  "caller_role example_profiles ''c1'' = Some ''client''"
  "caller_role example_profiles ''a1'' = Some ''admin''"
  "caller_role example_profiles ''a2'' = Some ''admin''"
  "caller_role example_profiles ''s1'' = Some ''super_admin''"
  by (simp_all add: caller_role_def example_profiles_def example_profile_def)

lemma distinct_example_profiles: "distinct (map p_id example_profiles)"
  by (simp add: example_profiles_def example_profile_def)

section \<open>Row-level rules of \<open>bookings\<close>\<close>

text \<open>
  Claim C1.  On the migrated database, for every row of \<open>bookings\<close> and every
  authenticated caller, the SELECT rule passes the row exactly when the row's
  \<open>client_id\<close> is the caller, or the caller's own row of \<open>profiles\<close> (the only row
  of that table the sub-select can see, found without re-entering any policy) has role
  admin or super_admin.  So a client reads only the rows it owns, and an admin or a
  super-admin reads every row.
\<close>

theorem bookings_select_rule:
  assumes pk: "distinct (map p_id ps)"
  shows "rls_using migrated_catalog ps uid SELECT ''bookings'' (BRow b) =
           Inr (client_id b = Some uid \<or> caller_role ps uid = Some ''admin''
                \<or> caller_role ps uid = Some ''super_admin'')
       \<and> (caller_role ps uid = Some ''client'' \<longrightarrow>
            rls_using migrated_catalog ps uid SELECT ''bookings'' (BRow b) =
              Inr (client_id b = Some uid))
       \<and> (caller_role ps uid = Some ''admin'' \<or> caller_role ps uid = Some ''super_admin'' \<longrightarrow>
            rls_using migrated_catalog ps uid SELECT ''bookings'' (BRow b) = Inr True)"
  using find_own_profile [OF pk, of uid "\<lambda>r. r \<in> set [''admin'', ''super_admin'']"]
  by (auto simp add: bookings_select_eval)

theorem bookings_select_rule_witness:
  "distinct (map p_id example_profiles)
   \<and> caller_role example_profiles ''c1'' = Some ''client''
   \<and> rls_using migrated_catalog example_profiles ''c1'' SELECT ''bookings''
        (BRow (example_booking ''b1'' (Some ''c2'') ''inquiry'' None 0 0)) = Inr False"
  using bookings_select_rule [OF distinct_example_profiles, of "''c1''"
      "example_booking ''b1'' (Some ''c2'') ''inquiry'' None 0 0"]
  by (simp add: caller_role_example distinct_example_profiles example_booking_def)



section \<open>Row-level rules of \<open>profiles\<close>\<close>

lemma run_both: "run (schema_sql @ quiet_union_sql) fresh_catalog = Inr migrated_catalog"
proof -
  have "run (a @ b) c = (case run a c of Inl e \<Rightarrow> Inl e | Inr c' \<Rightarrow> run b c')" for a b c
    by (induction a arbitrary: c) (auto split: sum.splits)
  then show ?thesis by (simp add: run_schema_fresh run_migration)
qed

lemma profiles_select_eval:
  "rls_using migrated_catalog ps uid SELECT ''profiles'' (PRow r) = Inr (p_id r = uid)"
  by (auto simp add: rls_using_def rls_migrated policies_for_simps using_expr_def
      users_read_own_profile_def sql_eq_def)

lemma profiles_update_eval:
  "rls_using migrated_catalog ps uid UPDATE ''profiles'' (PRow r) = Inr (p_id r = uid)"
  by (auto simp add: rls_using_def rls_migrated policies_for_simps using_expr_def
      users_update_own_profile_def sql_eq_def)

lemma profiles_update_check_eval:
  "rls_check migrated_catalog ps uid UPDATE ''profiles'' (PRow r) = Inr (p_id r = uid)"
  by (auto simp add: rls_check_def rls_migrated policies_for_simps using_expr_def
      check_expr_def users_update_own_profile_def sql_eq_def)

text \<open>Before the migration every read of \<open>profiles\<close> under row-level security
  fails, and with it every rule that looks the caller's role up.\<close>

lemma profiles_select_before_migration:
  "rls_using schema_catalog ps uid SELECT ''profiles'' (PRow r) =
     Inl (InfiniteRecursion ''profiles'')"
  by (simp add: rls_using_def schema_catalog_def policies_for_def policy_defs using_expr_def
      sql_eq_def exists_own_profile_def profiles_visible_def)

lemma bookings_select_before_migration:
  "rls_using schema_catalog ps uid SELECT ''bookings'' (BRow b) =
     Inl (InfiniteRecursion ''profiles'')"
  by (simp add: rls_using_def schema_catalog_def policies_for_def policy_defs using_expr_def
      sql_eq_def exists_own_profile_def profiles_visible_def split: option.splits)

text \<open>
  Claim C5.  The schema followed by the recursion fix yields the migrated catalog, and
  there SELECT and UPDATE on a row of \<open>profiles\<close> (the existing row, and for UPDATE
  the new row as well) are each allowed exactly when the row's \<open>id\<close> is the caller's
  id.  A super-admin is refused every row of \<open>profiles\<close> that is not its own.
\<close>

theorem profiles_own_row_only:
  "run (schema_sql @ quiet_union_sql) fresh_catalog = Inr migrated_catalog
   \<and> rls_using migrated_catalog ps uid SELECT ''profiles'' (PRow r) = Inr (p_id r = uid)
   \<and> rls_using migrated_catalog ps uid UPDATE ''profiles'' (PRow r) = Inr (p_id r = uid)
   \<and> rls_check migrated_catalog ps uid UPDATE ''profiles'' (PRow r) = Inr (p_id r = uid)
   \<and> (caller_role ps uid = Some ''super_admin'' \<and> p_id r \<noteq> uid \<longrightarrow>
        rls_using migrated_catalog ps uid SELECT ''profiles'' (PRow r) = Inr False)"
  by (simp add: run_both profiles_select_eval profiles_update_eval profiles_update_check_eval)

theorem profiles_own_row_only_witness:
  "caller_role example_profiles ''s1'' = Some ''super_admin''
   \<and> p_id (example_profile ''a1'' ''admin'') \<noteq> ''s1''
   \<and> rls_using migrated_catalog example_profiles ''s1'' SELECT ''profiles''
        (PRow (example_profile ''a1'' ''admin'')) = Inr False
   \<and> rls_using migrated_catalog example_profiles ''s1'' SELECT ''profiles''
        (PRow (example_profile ''s1'' ''super_admin'')) = Inr True"
  using profiles_own_row_only [of example_profiles "''s1''" "example_profile ''a1'' ''admin''"]
    profiles_own_row_only [of example_profiles "''s1''" "example_profile ''s1'' ''super_admin''"]
  by (simp add: caller_role_example example_profile_def)

section \<open>Running the schema file twice\<close>

text \<open>
  The statements with a guard leave the migrated or unmigrated database as it is: the
  schema file without its CREATE POLICY statements is a no-op on its own result.
\<close>

lemma guarded_statements_rerun:
  "run (filter (\<lambda>s. \<not> is_create_policy s) schema_sql) schema_catalog = Inr schema_catalog"
  by (simp add: schema_sql_def schema_catalog_def)

text \<open>
  Claim C7 fails on the code.  The first run of the schema file on a fresh database
  succeeds; the second run stops at the first CREATE POLICY, which has no guard and
  finds its name taken.  The same happens after the migration.
\<close>

theorem schema_rerun_fails:
  "run schema_sql fresh_catalog = Inr schema_catalog
   \<and> run schema_sql schema_catalog =
       Inl (DuplicateObject ''Users can read their own profile'' ''profiles'')
   \<and> run schema_sql migrated_catalog =
       Inl (DuplicateObject ''Users can read their own profile'' ''profiles'')"
  by (simp add: run_schema_fresh)
     (simp add: schema_sql_def schema_catalog_def migrated_catalog_def has_policy_def
        users_read_own_profile_def users_update_own_profile_def)

section \<open>Conversion statistics\<close>


























section \<open>Account provisioning\<close>





lemma provisioning_succeeds:
  assumes "au_id new \<notin> set (map au_id us)" "au_id new \<notin> set (map p_id ps)"
    "au_email new = Some e" "e \<notin> set (map p_email ps)"
    "role_check (case json_field_text (raw_user_meta_data new) ''role'' of
                            Some r \<Rightarrow> r | None \<Rightarrow> ''client'')"
  shows "\<exists>db'. insert_auth_user now new (us, ps) = Inr db'"
  using assms
  by (auto simp add: insert_auth_user_def handle_new_user_def insert_profile_def
      coalesce_opt_def split_part_1_def split: option.splits)

section \<open>The sign-in form\<close>

text \<open>
  Claim C9.  When the domain of the email, \<open>email.split('@')[1]\<close> in lower case, is
  missing or is not one of the allowed domains, \<open>handleSubmit\<close> calls neither
  \<open>signIn\<close> nor \<open>signUp\<close>, whichever mode the form is in.  For an address with
  one \<open>@\<close> that domain is all the text after it (\<open>email_domain_single_at\<close>
  below).
\<close>

theorem rejected_email_no_auth_request:
  assumes "\<forall>d. email_domain (fd_email formData) = Some d \<longrightarrow> d \<notin> set ALLOWED_DOMAINS"
  shows "filter is_auth_request (handleSubmit isLogin formData rejects) = []"
  using assms
  by (auto simp add: handleSubmit_def isOrganizationEmail_def split: option.splits)

lemma accepted_email_auth_request:
  assumes "email_domain (fd_email formData) = Some d" "d \<in> set ALLOWED_DOMAINS"
  shows "filter is_auth_request (handleSubmit isLogin formData rejects) =
     [if isLogin then SignIn (fd_email formData) (fd_password formData)
      else SignUp (fd_email formData) (fd_password formData) (fd_name formData) (fd_role formData)]"
  using assms
  by (auto simp add: handleSubmit_def isOrganizationEmail_def split: option.splits)

lemma split_on_no_sep: "d \<notin> set s \<Longrightarrow> split_on d s = [s]"
  by (induction s) auto

lemma split_on_first: "d \<notin> set l \<Longrightarrow> split_on d (l @ d # r) = l # split_on d r"
  by (induction l) auto

lemma email_domain_single_at:
  assumes "CHR ''@'' \<notin> set l" "CHR ''@'' \<notin> set r"
  shows "email_domain (l @ ''@'' @ r) = Some (toLowerCase r)"
  using assms by (simp add: email_domain_def split_on_first split_on_no_sep js_index_def)

lemma example_form_domain: "email_domain (fd_email example_form) = Some ''gmail.com''"
  by (simp add: example_form_def email_domain_def js_index_def toLowerCase_def lower_char_def)

theorem rejected_email_no_auth_request_witness:
  "email_domain (fd_email example_form) = Some ''gmail.com''
   \<and> ''gmail.com'' \<notin> set ALLOWED_DOMAINS
   \<and> filter is_auth_request (handleSubmit True example_form False) = []
   \<and> filter is_auth_request (handleSubmit False example_form True) = []"
proof -
  have n: "''gmail.com'' \<notin> set ALLOWED_DOMAINS"
    by (simp add: ALLOWED_DOMAINS_def)
  have h: "\<forall>d. email_domain (fd_email example_form) = Some d \<longrightarrow> d \<notin> set ALLOWED_DOMAINS"
    using n by (simp add: example_form_domain)
  show ?thesis
    using n example_form_domain rejected_email_no_auth_request [OF h, of True False]
      rejected_email_no_auth_request [OF h, of False True]
    by simp
qed


section \<open>The booking form\<close>

lemma insert_booking_Inr:
  assumes "insert_booking cat ps uid fresh now v bs = Inr bs'"
  shows "\<exists>b. bs' = bs @ [b]
     \<and> Some (booking_id b) = with_default (i_id v) (Some fresh)
     \<and> booking_id b \<notin> set (map booking_id bs)
     \<and> Some (status b) = with_default (i_status v) (Some ''inquiry'')
     \<and> status_check (status b)
     \<and> client_id b = with_default (i_client_id v) None
     \<and> assigned_admin_id b = with_default (i_assigned_admin_id v) None
     \<and> receipts_uploaded b = with_default (i_receipts_uploaded v) (Some False)
     \<and> receipts_approved b = with_default (i_receipts_approved v) (Some False)"
  using assms
  by (auto simp add: insert_booking_def Let_def split: option.splits if_splits sum.splits)

text \<open>
  Claim C8.  The object \<open>onSubmit\<close> inserts has status inquiry and both receipt
  flags false, and has no \<open>client_id\<close> and no \<open>assigned_admin_id\<close> key; so
  whenever the insert goes through, the table has gained one row with status inquiry,
  both flags false, and NULL for owner and assigned admin: nothing in the row refers to
  the account that submitted it.
\<close>

theorem booking_form_row:
  "i_status (onSubmit_row data) = Val ''inquiry''
   \<and> i_receipts_uploaded (onSubmit_row data) = Val False
   \<and> i_receipts_approved (onSubmit_row data) = Val False
   \<and> i_client_id (onSubmit_row data) = Absent
   \<and> i_assigned_admin_id (onSubmit_row data) = Absent
   \<and> (onSubmit cat ps uid fresh now data bs = Inr bs' \<longrightarrow>
        (\<exists>b. bs' = bs @ [b] \<and> status b = ''inquiry''
           \<and> receipts_uploaded b = Some False \<and> receipts_approved b = Some False
           \<and> client_id b = None \<and> assigned_admin_id b = None))"
proof -
  have "\<exists>b. bs' = bs @ [b] \<and> status b = ''inquiry''
           \<and> receipts_uploaded b = Some False \<and> receipts_approved b = Some False
           \<and> client_id b = None \<and> assigned_admin_id b = None"
    if "onSubmit cat ps uid fresh now data bs = Inr bs'"
    using insert_booking_Inr [OF that [unfolded onSubmit_def]]
    by (auto simp add: onSubmit_row_def with_default_def)
  then show ?thesis by (simp add: onSubmit_row_def)
qed

lemma bookings_insert_eval:
  "rls_check migrated_catalog ps uid INSERT ''bookings'' (BRow b) = Inr True"
  by (simp add: rls_check_def rls_migrated policies_for_simps check_expr_def
      anyone_can_create_bookings_def)

lemma example_submission:
  "onSubmit migrated_catalog example_profiles ''c1'' ''b9'' 5 example_form_data [] =
     Inr [(example_booking ''b9'' None ''inquiry'' None 5 5)]"
  by (simp add: onSubmit_def insert_booking_def onSubmit_row_def with_default_def Let_def
      example_form_data_def status_check_def references_ok_def bookings_insert_eval
      example_booking_def)

theorem booking_form_row_witness:
  "onSubmit migrated_catalog example_profiles ''c1'' ''b9'' 5 example_form_data [] =
     Inr [(example_booking ''b9'' None ''inquiry'' None 5 5)]
   \<and> client_id (example_booking ''b9'' None ''inquiry'' None 5 5) = None
   \<and> assigned_admin_id (example_booking ''b9'' None ''inquiry'' None 5 5) = None"
  using booking_form_row [of example_form_data migrated_catalog example_profiles "''c1''" "''b9''" 5
      "[]" "[(example_booking ''b9'' None ''inquiry'' None 5 5)]"] example_submission
  by simp

section \<open>The receipts upload\<close>











section \<open>The life cycle of a booking\<close>














































section \<open>A client as assigned admin\<close>





end
